theory Spec2Isabelle
  imports Complex_Main
begin

section \<open>Values, dictionaries and errors\<close>

text \<open>
  The particle store of the dashboard holds JSON data: scalars and flat lists of
  scalars. Python floats are modelled as real numbers; a float operation whose result
  is not a real number (an array divided by zero inside a compiled kernel, a \<open>None\<close>
  entry of a point turned into nan by numpy) is marked \<open>NotFinite\<close>. The marker is
  not a Python exception: no \<open>except\<close> clause of the model catches it, and no theorem
  below says what the program does after it. A scalar division by zero raises
  ZeroDivisionError, in Python and in a compiled kernel alike. Rounding and overflow of
  floats are outside the model.
\<close>

datatype pyscalar = SNone | SBool bool | SNum real | SStr string

datatype pyval = PyNone | PyBool bool | PyNum real | PyStr string | PyList "pyscalar list"

type_synonym pydict = "string \<rightharpoonup> pyval"

datatype py_error =
  KeyError | TypeError | ValueError | ZeroDivisionError | IndexError
  | ModuleNotFoundError | AttributeError | NotFinite

definition bindE :: "py_error + 'a \<Rightarrow> ('a \<Rightarrow> py_error + 'b) \<Rightarrow> py_error + 'b" where
  "bindE r f = (case r of Inl e \<Rightarrow> Inl e | Inr v \<Rightarrow> f v)"

fun mapE :: "('a \<Rightarrow> py_error + 'b) \<Rightarrow> 'a list \<Rightarrow> py_error + 'b list" where
  "mapE f [] = Inr []"
| "mapE f (x # xs) = bindE (f x) (\<lambda>y. bindE (mapE f xs) (\<lambda>ys. Inr (y # ys)))"

text \<open>Python truthiness, as used by \<open>not v\<close> and \<open>v or default\<close>.\<close>

fun truthy :: "pyval \<Rightarrow> bool" where
  "truthy PyNone = False"
| "truthy (PyBool b) = b"
| "truthy (PyNum x) = (x \<noteq> 0)"
| "truthy (PyStr s) = (s \<noteq> [])"
| "truthy (PyList xs) = (xs \<noteq> [])"

fun of_scalar :: "pyscalar \<Rightarrow> pyval" where
  "of_scalar SNone = PyNone"
| "of_scalar (SBool b) = PyBool b"
| "of_scalar (SNum x) = PyNum x"
| "of_scalar (SStr s) = PyStr s"

text \<open>\<open>d.get(k)\<close> and \<open>d[k]\<close>.\<close>

definition dict_get :: "pydict \<Rightarrow> string \<Rightarrow> pyval" where
  "dict_get d k = (case d k of None \<Rightarrow> PyNone | Some v \<Rightarrow> v)"

definition dict_item :: "pydict \<Rightarrow> string \<Rightarrow> py_error + pyval" where
  "dict_item d k = (case d k of None \<Rightarrow> Inl KeyError | Some v \<Rightarrow> Inr v)"

text \<open>
  The builtin \<open>float(v)\<close>. The conversion of a string is Python's own and is taken as
  the parameter \<open>pf\<close> (\<open>None\<close> where Python raises ValueError).
\<close>

fun py_float :: "(string \<Rightarrow> real option) \<Rightarrow> pyval \<Rightarrow> py_error + real" where
  "py_float pf PyNone = Inl TypeError"
| "py_float pf (PyBool b) = Inr (if b then 1 else 0)"
| "py_float pf (PyNum x) = Inr x"
| "py_float pf (PyStr s) = (case pf s of None \<Rightarrow> Inl ValueError | Some x \<Rightarrow> Inr x)"
| "py_float pf (PyList xs) = Inl TypeError"

text \<open>A number passed to an arithmetic expression or to a compiled kernel.\<close>

fun num_arg :: "pyval \<Rightarrow> py_error + real" where
  "num_arg (PyNum x) = Inr x"
| "num_arg (PyBool b) = Inr (if b then 1 else 0)"
| "num_arg v = Inl TypeError"

text \<open>Python's \<open>q / m\<close> on two objects.\<close>

definition py_truediv :: "pyval \<Rightarrow> pyval \<Rightarrow> py_error + real" where
  "py_truediv q m =
     bindE (num_arg q) (\<lambda>qv. bindE (num_arg m) (\<lambda>mv.
       if mv = 0 then Inl ZeroDivisionError else Inr (qv / mv)))"

section \<open>Vectors\<close>

type_synonym vec3 = "real \<times> real \<times> real"

definition vzero :: vec3 where
  "vzero = (0, 0, 0)"

fun vadd :: "vec3 \<Rightarrow> vec3 \<Rightarrow> vec3" where
  "vadd (a, b, c) (x, y, z) = (a + x, b + y, c + z)"

fun vsub :: "vec3 \<Rightarrow> vec3 \<Rightarrow> vec3" where
  "vsub (a, b, c) (x, y, z) = (a - x, b - y, c - z)"

fun smul :: "real \<Rightarrow> vec3 \<Rightarrow> vec3" where
  "smul k (x, y, z) = (k * x, k * y, k * z)"

fun vdiv :: "vec3 \<Rightarrow> real \<Rightarrow> vec3" where
  "vdiv (x, y, z) k = (x / k, y / k, z / k)"

text \<open>\<open>np.sqrt(np.sum(v**2))\<close> and \<open>np.linalg.norm(v)\<close>.\<close>

fun vnorm :: "vec3 \<Rightarrow> real" where
  "vnorm (x, y, z) = sqrt (x\<^sup>2 + y\<^sup>2 + z\<^sup>2)"

section \<open>config.py\<close>

definition EPSILON_0 :: real where
  "EPSILON_0 = 8.854187817 / 10 ^ 12"

section \<open>geometries/charged\_sphere.py\<close>

text \<open>
  One iteration of the loop of \<open>compute_field_sphere\<close>: the field at one observation
  point. The division is an array division inside the compiled kernel.
\<close>

definition field_sphere_at :: "vec3 \<Rightarrow> real \<Rightarrow> real \<Rightarrow> real \<Rightarrow> vec3 \<Rightarrow> py_error + vec3" where
  "field_sphere_at center radius sigma epsilon_0 p =
     (let q_total = 4 * pi * radius\<^sup>2 * sigma;
          r_vec = vsub p center;
          r_mag = vnorm r_vec
      in if r_mag \<le> radius then Inr (0, 0, 0)
         else if 4 * pi * epsilon_0 * r_mag ^ 3 = 0 then Inl NotFinite
         else Inr (vdiv (smul q_total r_vec) (4 * pi * epsilon_0 * r_mag ^ 3)))"

definition compute_field_sphere ::
  "vec3 \<Rightarrow> real \<Rightarrow> real \<Rightarrow> vec3 list \<Rightarrow> real \<Rightarrow> py_error + vec3 list" where
  "compute_field_sphere center radius sigma obs_points epsilon_0 =
     mapE (field_sphere_at center radius sigma epsilon_0) obs_points"

definition potential_sphere_at :: "vec3 \<Rightarrow> real \<Rightarrow> real \<Rightarrow> real \<Rightarrow> vec3 \<Rightarrow> py_error + real" where
  "potential_sphere_at center radius sigma epsilon_0 p =
     (let q_total = 4 * pi * radius\<^sup>2 * sigma;
          r_vec = vsub p center;
          r_mag = vnorm r_vec
      in if r_mag \<le> radius
         then (if 4 * pi * epsilon_0 * radius = 0 then Inl ZeroDivisionError
               else Inr (q_total / (4 * pi * epsilon_0 * radius)))
         else (if 4 * pi * epsilon_0 * r_mag = 0 then Inl ZeroDivisionError
               else Inr (q_total / (4 * pi * epsilon_0 * r_mag))))"

definition compute_potential_sphere ::
  "vec3 \<Rightarrow> real \<Rightarrow> real \<Rightarrow> vec3 list \<Rightarrow> real \<Rightarrow> py_error + real list" where
  "compute_potential_sphere center radius sigma obs_points epsilon_0 =
     mapE (potential_sphere_at center radius sigma epsilon_0) obs_points"

text \<open>\<open>E[0]\<close> of a computed field array.\<close>

definition first_row :: "py_error + 'a list \<Rightarrow> py_error + 'a" where
  "first_row r = bindE r (\<lambda>E. case E of [] \<Rightarrow> Inl IndexError | e # _ \<Rightarrow> Inr e)"

text \<open>\<open>E_point(r_point, sigma=1e-6, radius=1.0, epsilon_0=8.854e-12)\<close>.\<close>

definition E_point_charged_sphere :: "vec3 \<Rightarrow> real \<Rightarrow> real \<Rightarrow> real \<Rightarrow> py_error + vec3" where
  "E_point_charged_sphere r_point sigma radius epsilon_0 =
     first_row (compute_field_sphere (0, 0, 0) radius sigma [r_point] epsilon_0)"

section \<open>geometries/two\_spheres.py\<close>

definition field_two_spheres_at ::
  "vec3 \<Rightarrow> vec3 \<Rightarrow> real \<Rightarrow> real \<Rightarrow> real \<Rightarrow> real \<Rightarrow> vec3 \<Rightarrow> py_error + vec3" where
  "field_two_spheres_at r1 r2 q1 q2 radius epsilon_0 p =
     (let r_vec1 = vsub p r1;
          r_vec2 = vsub p r2;
          d1 = vnorm r_vec1;
          d2 = vnorm r_vec2
      in bindE (if d1 > radius
                then (if 4 * pi * epsilon_0 * d1 ^ 3 = 0 then Inl NotFinite
                      else Inr (vadd (0, 0, 0)
                             (vdiv (smul q1 r_vec1) (4 * pi * epsilon_0 * d1 ^ 3))))
                else Inr (0, 0, 0))
           (\<lambda>E. if d2 > radius
                then (if 4 * pi * epsilon_0 * d2 ^ 3 = 0 then Inl NotFinite
                      else Inr (vadd E (vdiv (smul q2 r_vec2) (4 * pi * epsilon_0 * d2 ^ 3))))
                else Inr E))"

definition compute_field_two_spheres ::
  "vec3 \<Rightarrow> vec3 \<Rightarrow> real \<Rightarrow> real \<Rightarrow> real \<Rightarrow> vec3 list \<Rightarrow> real \<Rightarrow> py_error + vec3 list" where
  "compute_field_two_spheres r1 r2 q1 q2 radius obs_points epsilon_0 =
     mapE (field_two_spheres_at r1 r2 q1 q2 radius epsilon_0) obs_points"



text \<open>
  \<open>E_point(r_point, sigma=1e-6, distance=1.0, invert_signo=True, N=20,
  epsilon_0=EPSILON_0)\<close>: the sphere radius is the constant 0.5.
\<close>

definition E_point_two_spheres ::
  "vec3 \<Rightarrow> real \<Rightarrow> real \<Rightarrow> bool \<Rightarrow> real \<Rightarrow> py_error + vec3" where
  "E_point_two_spheres r_point sigma distance invert_signo epsilon_0 =
     (let radius = 0.5;
          q = 4 * pi * radius\<^sup>2 * sigma;
          q1 = q;
          q2 = (if invert_signo then - q else q);
          r1 = (- distance / 2, 0, 0);
          r2 = (distance / 2, 0, 0)
      in first_row (compute_field_two_spheres r1 r2 q1 q2 radius [r_point] epsilon_0))"

section \<open>The discretised geometries\<close>

text \<open>
  The four kernels below sum point-charge contributions in nested loops. The field
  array \<open>E\<close> is a list with one row per observation point; one pass of the innermost
  loop (over the observation points \<open>k\<close>) adds the contribution of one source element
  to every row. Every denominator is nonzero when \<open>epsilon_0\<close> is, which holds for the
  defaults that the point functions \<open>E_point\<close> receive.
\<close>

definition add_source ::
  "real \<Rightarrow> real \<Rightarrow> (real \<Rightarrow> bool) \<Rightarrow> vec3 \<Rightarrow> vec3 list \<Rightarrow> vec3 list \<Rightarrow> vec3 list" where
  "add_source dq epsilon_0 far r_source obs_points E =
     map (\<lambda>(p, e).
            let r_vec = vsub p r_source; r_mag = vnorm r_vec
            in if far r_mag
               then vadd e (vdiv (smul dq r_vec) (4 * pi * epsilon_0 * r_mag ^ 3))
               else e)
         (zip obs_points E)"

definition zeros_like :: "vec3 list \<Rightarrow> vec3 list" where
  "zeros_like obs_points = map (\<lambda>_. (0, 0, 0)) obs_points"

subsection \<open>geometries/charged\_ring.py\<close>

definition compute_field_ring ::
  "vec3 \<Rightarrow> real \<Rightarrow> real \<Rightarrow> vec3 list \<Rightarrow> real \<Rightarrow> nat \<Rightarrow> vec3 list" where
  "compute_field_ring center radius sigma obs_points epsilon_0 N_segments =
     (let dtheta = 2 * pi / real N_segments;
          dl = radius * dtheta;
          dq = sigma * dl
      in fold (\<lambda>i E.
                 let theta = real i * dtheta;
                     r_source = (fst center + radius * cos theta,
                                 fst (snd center) + radius * sin theta,
                                 snd (snd center))
                 in add_source dq epsilon_0 (\<lambda>r_mag. r_mag > 1 / 10 ^ 8) r_source obs_points E)
           [0 ..< N_segments] (zeros_like obs_points))"

text \<open>\<open>E_point(r_point, sigma=1e-6, radius=1.0, epsilon_0=8.854e-12, N=20)\<close>.\<close>

definition E_point_charged_ring ::
  "vec3 \<Rightarrow> real \<Rightarrow> real \<Rightarrow> real \<Rightarrow> nat \<Rightarrow> py_error + vec3" where
  "E_point_charged_ring r_point sigma radius epsilon_0 N =
     first_row (Inr (compute_field_ring (0, 0, 0) radius sigma [r_point] epsilon_0 (100 + N)))"

subsection \<open>geometries/charged\_cylinder.py\<close>

definition compute_field_cylinder ::
  "vec3 \<Rightarrow> real \<Rightarrow> real \<Rightarrow> real \<Rightarrow> vec3 list \<Rightarrow> nat \<Rightarrow> nat \<Rightarrow> real \<Rightarrow> vec3 list" where
  "compute_field_cylinder center radius height sigma obs_points N_theta N_z epsilon_0 =
     (let dtheta = 2 * pi / real N_theta;
          dz = height / real N_z;
          dA = radius * dtheta * dz;
          dq = sigma * dA
      in fold (\<lambda>i E.
                 let theta = real i * dtheta;
                     x = fst center + radius * cos theta;
                     y = fst (snd center) + radius * sin theta
                 in fold (\<lambda>j E.
                            let z = snd (snd center) - height / 2 + real j * dz
                            in add_source dq epsilon_0 (\<lambda>r_mag. r_mag > 1 / 10 ^ 6)
                                 (x, y, z) obs_points E)
                      [0 ..< N_z] E)
           [0 ..< N_theta] (zeros_like obs_points))"

text \<open>\<open>E_point(r_point, sigma=1e-6, radius=1.0, height=2.0, N=20, epsilon_0=EPSILON_0)\<close>.\<close>

definition E_point_charged_cylinder ::
  "vec3 \<Rightarrow> real \<Rightarrow> real \<Rightarrow> real \<Rightarrow> nat \<Rightarrow> real \<Rightarrow> py_error + vec3" where
  "E_point_charged_cylinder r_point sigma radius height N epsilon_0 =
     (let N_theta = max 20 (40 + N);
          N_z = max 20 (40 + N)
      in first_row (Inr (compute_field_cylinder (0, 0, 0) radius height sigma [r_point]
                           N_theta N_z epsilon_0)))"

subsection \<open>geometries/charged\_plate.py\<close>

definition compute_field_plate ::
  "vec3 \<Rightarrow> real \<Rightarrow> real \<Rightarrow> real \<Rightarrow> vec3 list \<Rightarrow> real \<Rightarrow> nat \<Rightarrow> vec3 list" where
  "compute_field_plate center width height sigma obs_points epsilon_0 N =
     (let dx = width / real N;
          dy = height / real N;
          dA = dx * dy
      in fold (\<lambda>i E.
                 fold (\<lambda>j E.
                         let x = fst center - width / 2 + (real i + 0.5) * dx;
                             y = fst (snd center) - height / 2 + (real j + 0.5) * dy;
                             z = snd (snd center);
                             dq = sigma * dA
                         in add_source dq epsilon_0 (\<lambda>r_mag. r_mag \<noteq> 0) (x, y, z) obs_points E)
                      [0 ..< N] E)
           [0 ..< N] (zeros_like obs_points))"

text \<open>\<open>E_point(r_point, sigma=1e-6, width=1.0, height=1.0, epsilon_0=8.854e-12, N=20)\<close>.\<close>

definition E_point_charged_plate ::
  "vec3 \<Rightarrow> real \<Rightarrow> real \<Rightarrow> real \<Rightarrow> real \<Rightarrow> nat \<Rightarrow> py_error + vec3" where
  "E_point_charged_plate r_point sigma width height epsilon_0 N =
     first_row (Inr (compute_field_plate (0, 0, 0) width height sigma [r_point] epsilon_0 N))"

subsection \<open>geometries/parallel\_plates.py\<close>

definition compute_field_parallel_plates ::
  "vec3 \<Rightarrow> vec3 \<Rightarrow> real \<Rightarrow> real \<Rightarrow> real \<Rightarrow> vec3 list \<Rightarrow> real \<Rightarrow> vec3 list" where
  "compute_field_parallel_plates pos1 pos2 q1 q2 area obs_points epsilon_0 =
     (let N = 20;
          w = 2; h = 2;
          dx = w / real N;
          dy = h / real N;
          dA = dx * dy
      in fold (\<lambda>i E.
                 fold (\<lambda>j E.
                         let x = - w / 2 + (real i + 0.5) * dx;
                             y = - h / 2 + (real j + 0.5) * dy;
                             dq1 = q1 / area * dA;
                             E1 = add_source dq1 epsilon_0 (\<lambda>r_mag. r_mag > 1 / 10 ^ 6)
                                    (x, y, snd (snd pos1)) obs_points E;
                             dq2 = q2 / area * dA
                         in add_source dq2 epsilon_0 (\<lambda>r_mag. r_mag > 1 / 10 ^ 6)
                              (x, y, snd (snd pos2)) obs_points E1)
                      [0 ..< N] E)
           [0 ..< N] (zeros_like obs_points))"

text \<open>
  \<open>E_point(r_point, sigma=1e-6, distance=1.0, invert_signo=True, N=20,
  epsilon_0=EPSILON_0)\<close>.
\<close>

definition E_point_parallel_plates ::
  "vec3 \<Rightarrow> real \<Rightarrow> real \<Rightarrow> bool \<Rightarrow> real \<Rightarrow> py_error + vec3" where
  "E_point_parallel_plates r_point sigma distance invert_signo epsilon_0 =
     (let width = 2; height = 2;
          area = width * height;
          q = sigma * area;
          q1 = q;
          q2 = (if invert_signo then - q else q);
          pos1 = (0, 0, - distance / 2);
          pos2 = (0, 0, distance / 2)
      in first_row (Inr (compute_field_parallel_plates pos1 pos2 q1 q2 area [r_point] epsilon_0)))"

section \<open>The background grid of the simulate functions\<close>

text \<open>
  Each module's \<open>simulate\<close> computes its grid step from the resolution \<open>N\<close> (an
  integer; \<open>0.8 * 20 / N\<close> raises for \<open>N = 0\<close>) and builds the three axes with
  \<open>np.arange(start, stop, step)\<close>, which has \<open>ceil((stop - start) / step)\<close> entries.
\<close>

definition grid_step_with_floor :: "real \<Rightarrow> int \<Rightarrow> py_error + real" where
  "grid_step_with_floor lo N =
     (if N = 0 then Inl ZeroDivisionError else Inr (max (0.8 * 20 / real_of_int N) lo))"

definition grid_step_charged_sphere :: "int \<Rightarrow> py_error + real" where
  "grid_step_charged_sphere N = grid_step_with_floor 0.2 N"

definition grid_step_charged_ring :: "int \<Rightarrow> py_error + real" where
  "grid_step_charged_ring N = grid_step_with_floor 0.2 N"

definition grid_step_charged_cylinder :: "int \<Rightarrow> py_error + real" where
  "grid_step_charged_cylinder N = grid_step_with_floor 0.2 N"

definition grid_step_charged_plate :: "int \<Rightarrow> py_error + real" where
  "grid_step_charged_plate N = grid_step_with_floor 0.2 N"

definition grid_step_parallel_plates :: "int \<Rightarrow> py_error + real" where
  "grid_step_parallel_plates N = grid_step_with_floor 0.2 N"

definition grid_step_two_spheres :: "int \<Rightarrow> py_error + real" where
  "grid_step_two_spheres N = grid_step_with_floor 0.25 N"

text \<open>\<open>geometry_map\<close> of main.py, restricted to the grid step of the chosen module.\<close>

definition simulate_grid_step :: "string \<Rightarrow> int \<Rightarrow> py_error + real" where
  "simulate_grid_step geometry N =
     (if geometry = ''charged_plate'' then grid_step_charged_plate N
      else if geometry = ''charged_sphere'' then grid_step_charged_sphere N
      else if geometry = ''charged_cylinder'' then grid_step_charged_cylinder N
      else if geometry = ''parallel_plates'' then grid_step_parallel_plates N
      else if geometry = ''two_spheres'' then grid_step_two_spheres N
      else if geometry = ''charged_ring'' then grid_step_charged_ring N
      else Inl AttributeError)"

definition arange :: "real \<Rightarrow> real \<Rightarrow> real \<Rightarrow> real list" where
  "arange start stop step =
     map (\<lambda>i. start + real i * step) [0 ..< nat \<lceil>(stop - start) / step\<rceil>]"

text \<open>
  The axis of the chosen module: \<open>extent\<close> is 3.0, except 3.5 for the cylinder and 2.0
  for the plate; the sphere module passes \<open>extent + grid_step\<close> as the stop value, the
  others (through \<open>create_grid\<close>) pass \<open>extent\<close>.
\<close>

definition simulate_extent :: "string \<Rightarrow> real" where
  "simulate_extent geometry =
     (if geometry = ''charged_cylinder'' then 3.5
      else if geometry = ''charged_plate'' then 2.0
      else 3.0)"

definition simulate_axis :: "string \<Rightarrow> int \<Rightarrow> py_error + real list" where
  "simulate_axis geometry N =
     bindE (simulate_grid_step geometry N) (\<lambda>grid_step.
       let extent = simulate_extent geometry
       in if geometry = ''charged_sphere''
          then Inr (arange (- extent) (extent + grid_step) grid_step)
          else Inr (arange (- extent) extent grid_step))"

section \<open>callbacks/particle\_simulation.py\<close>

subsection \<open>check\_collision\<close>

text \<open>\<open>v or alt\<close>.\<close>

definition py_or :: "pyval \<Rightarrow> pyval \<Rightarrow> pyval" where
  "py_or v alt = (if truthy v then v else alt)"

text \<open>
  \<open>try: r = float(params.get(key) or 1.0)  except (ValueError, TypeError): r = 1.0\<close>
\<close>

definition param_or_default :: "(string \<Rightarrow> real option) \<Rightarrow> pydict \<Rightarrow> string \<Rightarrow> real" where
  "param_or_default pf params key =
     (case py_float pf (py_or (dict_get params key) (PyNum 1.0)) of
        Inl e \<Rightarrow> 1.0
      | Inr x \<Rightarrow> x)"

fun check_collision :: "(string \<Rightarrow> real option) \<Rightarrow> vec3 \<Rightarrow> pyval \<Rightarrow> pydict \<Rightarrow> bool" where
  "check_collision pf (x, y, z) geometry params =
     (let r = param_or_default pf params ''radius'';
          d = param_or_default pf params ''distance'';
          pos = (x, y, z)
      in if geometry = PyStr ''charged_sphere'' then
           vnorm pos \<le> r
         else if geometry = PyStr ''charged_ring'' then
           \<bar>z\<bar> < 0.05 \<and> \<bar>sqrt (x\<^sup>2 + y\<^sup>2) - r\<bar> < 0.05
         else if geometry = PyStr ''charged_cylinder'' then
           (let height = 2.0 in sqrt (x\<^sup>2 + y\<^sup>2) \<le> r \<and> \<bar>z\<bar> \<le> height / 2)
         else if geometry = PyStr ''charged_plate'' then
           \<bar>z\<bar> < 0.05 \<and> \<bar>x\<bar> \<le> 0.5 \<and> \<bar>y\<bar> \<le> 0.5
         else if geometry = PyStr ''parallel_plates'' then
           (let lower = - d / 2; upper = d / 2
            in \<bar>x\<bar> \<le> 1 \<and> \<bar>y\<bar> \<le> 1 \<and> (z \<le> lower \<or> z \<ge> upper))
         else if geometry = PyStr ''two_spheres'' then
           (let center1 = (d / 2, 0, 0); center2 = (- d / 2, 0, 0)
            in vnorm (vsub pos center1) \<le> r \<or> vnorm (vsub pos center2) \<le> r)
         else False)"

subsection \<open>The inputs and outputs of the callback\<close>

record ui_inputs =
  n_start :: int
  n_stop :: int
  n_interval :: int
  in_m :: pyval
  in_q :: pyval
  in_x0 :: pyscalar
  in_y0 :: pyscalar
  in_z0 :: pyscalar
  in_vx0 :: pyscalar
  in_vy0 :: pyscalar
  in_vz0 :: pyscalar
  geometry_key :: pyval
  in_sigma :: pyval
  in_radius :: pyval
  in_distance :: pyval
  in_invert :: pyval
  in_equipotentials :: pyval

text \<open>One output of a callback: \<open>dash.no_update\<close> keeps what the component holds.\<close>

datatype 'a out = NoUpdate | Update 'a

definition apply_out :: "'a out \<Rightarrow> 'a \<Rightarrow> 'a" where
  "apply_out out old = (case out of NoUpdate \<Rightarrow> old | Update v \<Rightarrow> v)"

text \<open>\<open>not estado\<close> for the store's data: \<open>None\<close> or the empty dictionary.\<close>

definition estado_falsy :: "pydict option \<Rightarrow> bool" where
  "estado_falsy estado = (case estado of None \<Rightarrow> True | Some d \<Rightarrow> d = Map.empty)"

definition estado_get :: "pydict option \<Rightarrow> string \<Rightarrow> pyval" where
  "estado_get estado k = (case estado of None \<Rightarrow> PyNone | Some d \<Rightarrow> dict_get d k)"

subsection \<open>The field at the particle\<close>

fun starts_with :: "string \<Rightarrow> string \<Rightarrow> bool" where
  "starts_with [] s = True"
| "starts_with (c # cs) [] = False"
| "starts_with (c # cs) (d # ds) = (c = d \<and> starts_with cs ds)"

fun str_contains :: "string \<Rightarrow> string \<Rightarrow> bool" where
  "str_contains n [] = (n = [])"
| "str_contains n (c # cs) = (starts_with n (c # cs) \<or> str_contains n cs)"

text \<open>\<open>"invert" in estado.get("invert", [])\<close>.\<close>

definition invert_flag :: "pydict \<Rightarrow> py_error + bool" where
  "invert_flag estado =
     (case (case estado ''invert'' of None \<Rightarrow> PyList [] | Some v \<Rightarrow> v) of
        PyList xs \<Rightarrow> Inr (SStr ''invert'' \<in> set xs)
      | PyStr s \<Rightarrow> Inr (str_contains ''invert'' s)
      | _ \<Rightarrow> Inl TypeError)"

text \<open>
  A numpy array of floats as the tick uses it: an array of three entries is a point of
  space; an array of any other shape (no axis, another length) makes every operation of
  the \<open>try\<close> block that touches it raise, whatever it holds.
\<close>

datatype ndarray = Point3 vec3 | OtherShape

fun as_vec3 :: "ndarray \<Rightarrow> py_error + vec3" where
  "as_vec3 (Point3 p) = Inr p"
| "as_vec3 OtherShape = Inl ValueError"

text \<open>
  Lines 119 to 132: the module of the stored geometry is imported, the keyword
  arguments that its \<open>E_point\<close> declares are read from the state (\<open>sigma\<close>, \<open>radius\<close>,
  \<open>distance\<close>, \<open>invert_signo\<close>), and \<open>E_point\<close> is called. Every other parameter of
  \<open>E_point\<close>, \<open>epsilon_0\<close> among them, keeps the default of its signature.
\<close>

definition call_E_point :: "pydict \<Rightarrow> ndarray \<Rightarrow> py_error + vec3" where
  "call_E_point estado pos =
     bindE (dict_item estado ''geometry'') (\<lambda>g.
       if g = PyStr ''charged_sphere'' then
         bindE (num_arg (dict_get estado ''sigma'')) (\<lambda>sigma.
         bindE (num_arg (dict_get estado ''radius'')) (\<lambda>radius.
         bindE (as_vec3 pos) (\<lambda>p.
           E_point_charged_sphere p sigma radius (8.854 / 10 ^ 12))))
       else if g = PyStr ''charged_ring'' then
         bindE (num_arg (dict_get estado ''sigma'')) (\<lambda>sigma.
         bindE (num_arg (dict_get estado ''radius'')) (\<lambda>radius.
         bindE (as_vec3 pos) (\<lambda>p.
           E_point_charged_ring p sigma radius (8.854 / 10 ^ 12) 20)))
       else if g = PyStr ''charged_cylinder'' then
         bindE (num_arg (dict_get estado ''sigma'')) (\<lambda>sigma.
         bindE (num_arg (dict_get estado ''radius'')) (\<lambda>radius.
         bindE (as_vec3 pos) (\<lambda>p.
           E_point_charged_cylinder p sigma radius 2.0 20 EPSILON_0)))
       else if g = PyStr ''charged_plate'' then
         bindE (num_arg (dict_get estado ''sigma'')) (\<lambda>sigma.
         bindE (as_vec3 pos) (\<lambda>p.
           E_point_charged_plate p sigma 1.0 1.0 (8.854 / 10 ^ 12) 20))
       else if g = PyStr ''parallel_plates'' then
         bindE (invert_flag estado) (\<lambda>invert_signo.
         bindE (num_arg (dict_get estado ''sigma'')) (\<lambda>sigma.
         bindE (num_arg (dict_get estado ''distance'')) (\<lambda>distance.
         bindE (as_vec3 pos) (\<lambda>p.
           E_point_parallel_plates p sigma distance invert_signo EPSILON_0))))
       else if g = PyStr ''two_spheres'' then
         bindE (invert_flag estado) (\<lambda>invert_signo.
         bindE (num_arg (dict_get estado ''sigma'')) (\<lambda>sigma.
         bindE (num_arg (dict_get estado ''distance'')) (\<lambda>distance.
         bindE (as_vec3 pos) (\<lambda>p.
           E_point_two_spheres p sigma distance invert_signo EPSILON_0))))
       else Inl ModuleNotFoundError)"

subsection \<open>One tick\<close>

text \<open>
  \<open>np.array(v, dtype=float)\<close>. A string that is no number raises ValueError. A list
  of three entries gives a point, whose \<open>None\<close> entries become nan; a list of another
  length, a scalar and \<open>None\<close> give an array of another shape.
\<close>

fun scalar_float :: "(string \<Rightarrow> real option) \<Rightarrow> pyscalar \<Rightarrow> py_error + real" where
  "scalar_float pf SNone = Inl NotFinite"
| "scalar_float pf (SBool b) = Inr (if b then 1 else 0)"
| "scalar_float pf (SNum x) = Inr x"
| "scalar_float pf (SStr s) = (case pf s of None \<Rightarrow> Inl ValueError | Some x \<Rightarrow> Inr x)"

definition bad_string :: "(string \<Rightarrow> real option) \<Rightarrow> pyscalar \<Rightarrow> bool" where
  "bad_string pf v = (case v of SStr s \<Rightarrow> pf s = None | _ \<Rightarrow> False)"

fun np_array_float :: "(string \<Rightarrow> real option) \<Rightarrow> pyval \<Rightarrow> py_error + ndarray" where
  "np_array_float pf (PyList xs) =
     (if list_ex (bad_string pf) xs then Inl ValueError
      else case xs of
             [a, b, c] \<Rightarrow>
               bindE (scalar_float pf a) (\<lambda>x.
               bindE (scalar_float pf b) (\<lambda>y.
               bindE (scalar_float pf c) (\<lambda>z. Inr (Point3 (x, y, z)))))
           | _ \<Rightarrow> Inr OtherShape)"
| "np_array_float pf PyNone = Inr OtherShape"
| "np_array_float pf (PyBool b) = Inr OtherShape"
| "np_array_float pf (PyNum x) = Inr OtherShape"
| "np_array_float pf (PyStr s) = (case pf s of None \<Rightarrow> Inl ValueError | Some x \<Rightarrow> Inr OtherShape)"

text \<open>\<open>a.tolist()\<close> of an array of three floats.\<close>

fun tolist :: "vec3 \<Rightarrow> pyval" where
  "tolist (x, y, z) = PyList [SNum x, SNum y, SNum z]"

definition dt :: real where
  "dt = 0.05"

text \<open>The body of the \<open>try\<close> block, lines 119 to 145; \<open>Inr\<close> is the returned state.\<close>

definition tick_try_body ::
  "(string \<Rightarrow> real option) \<Rightarrow> pydict \<Rightarrow> ndarray \<Rightarrow> ndarray \<Rightarrow> pyval \<Rightarrow> pyval
     \<Rightarrow> py_error + pydict" where
  "tick_try_body pf estado pos vel m q =
     bindE (call_E_point estado pos) (\<lambda>E.
     bindE (py_truediv q m) (\<lambda>q_over_m.
     bindE (as_vec3 vel) (\<lambda>vel0.
     bindE (as_vec3 pos) (\<lambda>pos0.
       let acc = smul q_over_m E;
           vel1 = vadd vel0 (smul dt acc);
           pos1 = vadd pos0 (smul dt vel1)
       in bindE (dict_item estado ''geometry'') (\<lambda>geometry.
            let colision = check_collision pf pos1 geometry estado;
                estado1 = (if colision then estado(''activo'' \<mapsto> PyBool False) else estado)
            in Inr (estado1(''pos'' \<mapsto> tolist pos1, ''vel'' \<mapsto> tolist vel1)))))))"

text \<open>
  The callback. \<open>Inl\<close> is an exception that leaves the callback (raised before the
  \<open>try\<close> block), or the marker \<open>NotFinite\<close>; the triple holds the new store data, the
  \<open>disabled\<close> flag of the timer and the graph (never written here).
\<close>

definition manejar_particula ::
  "(string \<Rightarrow> real option) \<Rightarrow> string \<Rightarrow> ui_inputs \<Rightarrow> pydict option
     \<Rightarrow> py_error + (pydict out \<times> bool out \<times> unit out)" where
  "manejar_particula pf triggered ui estado =
     (if triggered = ''stop-button'' then
        (let nuevo_estado = (case estado of None \<Rightarrow> Map.empty | Some d \<Rightarrow> d)
         in Inr (Update (nuevo_estado(''activo'' \<mapsto> PyBool False)), Update True, NoUpdate))
      else if triggered = ''start-button'' then
        (if estado_falsy estado \<or> \<not> truthy (estado_get estado ''simulated'')
         then Inr (NoUpdate, NoUpdate, NoUpdate)
         else Inr (Update [''simulated'' \<mapsto> PyBool True,
                           ''activo'' \<mapsto> PyBool True,
                           ''pos'' \<mapsto> PyList [in_x0 ui, in_y0 ui, in_z0 ui],
                           ''vel'' \<mapsto> PyList [in_vx0 ui, in_vy0 ui, in_vz0 ui],
                           ''m'' \<mapsto> in_m ui,
                           ''q'' \<mapsto> in_q ui,
                           ''geometry'' \<mapsto> geometry_key ui,
                           ''sigma'' \<mapsto> in_sigma ui,
                           ''radius'' \<mapsto> in_radius ui,
                           ''distance'' \<mapsto> in_distance ui,
                           ''invert'' \<mapsto> in_invert ui],
                   Update False, NoUpdate))
      else if triggered = ''animation-interval'' then
        (if estado_falsy estado \<or> \<not> truthy (estado_get estado ''activo'')
            \<or> \<not> truthy (estado_get estado ''pos'')
         then Inr (NoUpdate, Update True, NoUpdate)
         else
           (let estado = (case estado of None \<Rightarrow> Map.empty | Some d \<Rightarrow> d)
            in bindE (bindE (dict_item estado ''pos'') (np_array_float pf)) (\<lambda>pos.
               bindE (bindE (dict_item estado ''vel'') (np_array_float pf)) (\<lambda>vel.
               bindE (dict_item estado ''m'') (\<lambda>m.
               bindE (dict_item estado ''q'') (\<lambda>q.
                 case tick_try_body pf estado pos vel m q of
                   Inr estado1 \<Rightarrow> Inr (Update estado1, NoUpdate, NoUpdate)
                 | Inl NotFinite \<Rightarrow> Inl NotFinite
                 | Inl e \<Rightarrow> Inr (NoUpdate, NoUpdate, NoUpdate)))))))
      else Inr (NoUpdate, NoUpdate, NoUpdate))"

subsection \<open>The store between callbacks\<close>

text \<open>
  The dashboard writes an output of a callback into the store unless it is
  \<open>dash.no_update\<close>; a callback that raises writes nothing. The timer fires the
  callback once per tick, each time with the store as the previous firing left it.
\<close>

definition store_after :: "pydict out \<Rightarrow> pydict option \<Rightarrow> pydict option" where
  "store_after data old = (case data of NoUpdate \<Rightarrow> old | Update d \<Rightarrow> Some d)"


subsection \<open>Concrete inputs\<close>

text \<open>The initial values of the input widgets (components/particle\_controls.py, main.py).\<close>

definition ui_default :: ui_inputs where
  "ui_default =
     \<lparr> n_start = 0, n_stop = 0, n_interval = 0,
       in_m = PyNum (1 / 10 ^ 3), in_q = PyNum (1 / 10 ^ 9),
       in_x0 = SNum 0, in_y0 = SNum 0, in_z0 = SNum 0,
       in_vx0 = SNum 0, in_vy0 = SNum 0, in_vz0 = SNum 0,
       geometry_key = PyStr ''charged_plate'',
       in_sigma = PyNum (1 / 10 ^ 6), in_radius = PyNum 1, in_distance = PyNum 1,
       in_invert = PyList [SStr ''invert''],
       in_equipotentials = PyList [SStr ''equipotentials''] \<rparr>"

text \<open>
  A running particle next to a charged sphere of radius 1: at the point \<open>(2, 0, 0)\<close>,
  with velocity \<open>(vx, 0, 0)\<close>, mass \<open>m\<close> and charge 1. The charge density is chosen so
  that the field at the particle is \<open>(1, 0, 0)\<close>.
\<close>

definition estado_sphere :: "real \<Rightarrow> pyval \<Rightarrow> pydict" where
  "estado_sphere vx m =
     [''simulated'' \<mapsto> PyBool True, ''activo'' \<mapsto> PyBool True,
      ''pos'' \<mapsto> PyList [SNum 2, SNum 0, SNum 0],
      ''vel'' \<mapsto> PyList [SNum vx, SNum 0, SNum 0],
      ''m'' \<mapsto> m, ''q'' \<mapsto> PyNum 1,
      ''geometry'' \<mapsto> PyStr ''charged_sphere'',
      ''sigma'' \<mapsto> PyNum (4 * (8.854 / 10 ^ 12)), ''radius'' \<mapsto> PyNum 1,
      ''distance'' \<mapsto> PyNum 1, ''invert'' \<mapsto> PyList [SStr ''invert'']]"

section \<open>Auxiliary facts\<close>

lemma mapE_Inr: "(\<And>x. x \<in> set xs \<Longrightarrow> f x = Inr (g x)) \<Longrightarrow> mapE f xs = Inr (map g xs)"
  by (induction xs) (simp_all add: bindE_def)

lemma vnorm_scaled: "vnorm (vdiv (smul k p) c) = \<bar>k\<bar> * vnorm p / \<bar>c\<bar>"
proof (cases p)
  case (fields x y z)
  have "(k * x / c)\<^sup>2 + (k * y / c)\<^sup>2 + (k * z / c)\<^sup>2 = (k / c)\<^sup>2 * (x\<^sup>2 + y\<^sup>2 + z\<^sup>2)"
    by (simp add: power_mult_distrib power_divide distrib_left add_divide_distrib)
  then have "sqrt ((k * x / c)\<^sup>2 + (k * y / c)\<^sup>2 + (k * z / c)\<^sup>2)
               = \<bar>k / c\<bar> * sqrt (x\<^sup>2 + y\<^sup>2 + z\<^sup>2)"
    by (simp add: real_sqrt_mult)
  then show ?thesis using fields by (simp add: abs_divide)
qed

section \<open>The charged sphere\<close>

lemma field_sphere_at_closed:
  assumes "0 < R" "0 < eps"
  shows "field_sphere_at (0, 0, 0) R sigma eps p =
     Inr (if vnorm p \<le> R then (0, 0, 0)
          else vdiv (smul (4 * pi * R\<^sup>2 * sigma) p) (4 * pi * eps * vnorm p ^ 3))"
proof (cases p)
  case (fields x y z)
  show ?thesis
  proof (cases "vnorm p \<le> R")
    case True
    then show ?thesis using fields by (simp add: field_sphere_at_def Let_def)
  next
    case False
    then have "0 < vnorm p" using assms by simp
    then have "4 * pi * eps * vnorm p ^ 3 \<noteq> 0" using assms by simp
    then show ?thesis using False fields by (simp add: field_sphere_at_def Let_def)
  qed
qed

text \<open>
  Claim C1. For a sphere of radius \<open>R > 0\<close> centred at the origin and \<open>epsilon_0 > 0\<close>,
  the field evaluator returns, at every observation point \<open>p\<close>, the zero vector when
  \<open>\<parallel>p\<parallel> \<le> R\<close> and \<open>(4 pi R\<^sup>2 sigma) p / (4 pi epsilon_0 \<parallel>p\<parallel>\<^sup>3)\<close> otherwise. For \<open>R = 1\<close>,
  \<open>sigma = 1e-6\<close>, \<open>epsilon_0 = 8.854e-12\<close> and any point at distance 2 from the origin,
  the magnitude of the field at the particle is
  \<open>(4 pi R\<^sup>2 sigma) / (4 pi epsilon_0 r\<^sup>2)\<close>: exactly over the reals, hence within the
  relative tolerance \<open>1e-6\<close>.
\<close>

theorem sphere_field_closed_form:
  assumes "0 < R" and "0 < eps"
  shows "compute_field_sphere (0, 0, 0) R sigma obs_points eps =
           Inr (map (\<lambda>p. if vnorm p \<le> R then (0, 0, 0)
                         else vdiv (smul (4 * pi * R\<^sup>2 * sigma) p) (4 * pi * eps * vnorm p ^ 3))
                  obs_points)
         \<and> (vnorm q = 2 \<longrightarrow>
              (\<exists>E. E_point_charged_sphere q (1 / 10 ^ 6) 1 (8.854 / 10 ^ 12) = Inr E
                 \<and> vnorm E = (4 * pi * 1\<^sup>2 * (1 / 10 ^ 6)) / (4 * pi * (8.854 / 10 ^ 12) * 2\<^sup>2)
                 \<and> \<bar>vnorm E - (4 * pi * 1\<^sup>2 * (1 / 10 ^ 6)) / (4 * pi * (8.854 / 10 ^ 12) * 2\<^sup>2)\<bar>
                     \<le> 1 / 10 ^ 6 * \<bar>(4 * pi * 1\<^sup>2 * (1 / 10 ^ 6)) / (4 * pi * (8.854 / 10 ^ 12) * 2\<^sup>2)\<bar>))"
proof (intro conjI impI)
  show "compute_field_sphere (0, 0, 0) R sigma obs_points eps =
           Inr (map (\<lambda>p. if vnorm p \<le> R then (0, 0, 0)
                         else vdiv (smul (4 * pi * R\<^sup>2 * sigma) p) (4 * pi * eps * vnorm p ^ 3))
                  obs_points)"
    unfolding compute_field_sphere_def
    by (rule mapE_Inr) (rule field_sphere_at_closed [OF assms])
next
  assume q: "vnorm q = 2"
  let ?E = "vdiv (smul (4 * pi * 1\<^sup>2 * (1 / 10 ^ 6)) q) (4 * pi * (8.854 / 10 ^ 12) * vnorm q ^ 3)"
  have "field_sphere_at (0, 0, 0) 1 (1 / 10 ^ 6) (8.854 / 10 ^ 12) q = Inr ?E"
    using field_sphere_at_closed [of 1 "8.854 / 10 ^ 12" "1 / 10 ^ 6" q] q by simp
  then have e: "E_point_charged_sphere q (1 / 10 ^ 6) 1 (8.854 / 10 ^ 12) = Inr ?E"
    by (simp add: E_point_charged_sphere_def compute_field_sphere_def first_row_def bindE_def)
  have n: "vnorm ?E = (4 * pi * 1\<^sup>2 * (1 / 10 ^ 6)) / (4 * pi * (8.854 / 10 ^ 12) * 2\<^sup>2)"
    unfolding vnorm_scaled q by (simp add: abs_mult)
  show "\<exists>E. E_point_charged_sphere q (1 / 10 ^ 6) 1 (8.854 / 10 ^ 12) = Inr E
                 \<and> vnorm E = (4 * pi * 1\<^sup>2 * (1 / 10 ^ 6)) / (4 * pi * (8.854 / 10 ^ 12) * 2\<^sup>2)
                 \<and> \<bar>vnorm E - (4 * pi * 1\<^sup>2 * (1 / 10 ^ 6)) / (4 * pi * (8.854 / 10 ^ 12) * 2\<^sup>2)\<bar>
                     \<le> 1 / 10 ^ 6 * \<bar>(4 * pi * 1\<^sup>2 * (1 / 10 ^ 6)) / (4 * pi * (8.854 / 10 ^ 12) * 2\<^sup>2)\<bar>"
    using e n by simp
qed

theorem sphere_field_closed_form_witness:
  "0 < (1::real) \<and> 0 < (8.854 / 10 ^ 12 :: real)
   \<and> compute_field_sphere (0, 0, 0) 1 (1 / 10 ^ 6) [(1 / 2, 0, 0), (0, 0, 2)] (8.854 / 10 ^ 12)
       = Inr [(0, 0, 0),
              vdiv (smul (4 * pi * 1\<^sup>2 * (1 / 10 ^ 6)) (0, 0, 2)) (4 * pi * (8.854 / 10 ^ 12) * 2 ^ 3)]
   \<and> vnorm (0, 0, 2) = 2
   \<and> (\<exists>E. E_point_charged_sphere (0, 0, 2) (1 / 10 ^ 6) 1 (8.854 / 10 ^ 12) = Inr E
          \<and> vnorm E = (4 * pi * 1\<^sup>2 * (1 / 10 ^ 6)) / (4 * pi * (8.854 / 10 ^ 12) * 2\<^sup>2))"
  using sphere_field_closed_form [of 1 "8.854 / 10 ^ 12" "1 / 10 ^ 6" "[(1 / 2, 0, 0), (0, 0, 2)]" "(0, 0, 2)"]
  by simp blast

section \<open>Two spheres\<close>




section \<open>The collision predicate\<close>

lemma param_or_default_num:
  "params key = Some (PyNum v) \<Longrightarrow> v \<noteq> 0 \<Longrightarrow> param_or_default pf params key = v"
  by (simp add: param_or_default_def py_or_def dict_get_def)

text \<open>
  Claim C4, as amended. For every position \<open>(x, y, z)\<close> and every radius \<open>R\<close> and distance
  \<open>d\<close> given as nonzero numbers, the collision predicate is the test of the geometry:
  sphere \<open>\<parallel>p\<parallel> \<le> R\<close>; ring \<open>|z| < 0.05\<close> and \<open>|sqrt(x\<^sup>2+y\<^sup>2) - R| < 0.05\<close>; cylinder
  \<open>sqrt(x\<^sup>2+y\<^sup>2) \<le> R\<close> and \<open>|z| \<le> 1\<close>; plate \<open>|z| < 0.05\<close>, \<open>|x| \<le> 0.5\<close>, \<open>|y| \<le> 0.5\<close>;
  parallel plates \<open>|x| \<le> 1\<close>, \<open>|y| \<le> 1\<close> and \<open>z \<le> -d/2\<close> or \<open>z \<ge> d/2\<close>; two spheres: within
  \<open>R\<close> of \<open>(d/2, 0, 0)\<close> or of \<open>(-d/2, 0, 0)\<close>. For the cylinder with \<open>R = 1\<close> the origin
  collides and \<open>(0, 0, 1.5)\<close> does not.
\<close>

theorem check_collision_table:
  assumes "params ''radius'' = Some (PyNum R)" and "R \<noteq> 0"
    and "params ''distance'' = Some (PyNum d)" and "d \<noteq> 0"
  shows "check_collision pf (x, y, z) (PyStr ''charged_sphere'') params
           = (sqrt (x\<^sup>2 + y\<^sup>2 + z\<^sup>2) \<le> R)
       \<and> check_collision pf (x, y, z) (PyStr ''charged_ring'') params
           = (\<bar>z\<bar> < 0.05 \<and> \<bar>sqrt (x\<^sup>2 + y\<^sup>2) - R\<bar> < 0.05)
       \<and> check_collision pf (x, y, z) (PyStr ''charged_cylinder'') params
           = (sqrt (x\<^sup>2 + y\<^sup>2) \<le> R \<and> \<bar>z\<bar> \<le> 1.0)
       \<and> check_collision pf (x, y, z) (PyStr ''charged_plate'') params
           = (\<bar>z\<bar> < 0.05 \<and> \<bar>x\<bar> \<le> 0.5 \<and> \<bar>y\<bar> \<le> 0.5)
       \<and> check_collision pf (x, y, z) (PyStr ''parallel_plates'') params
           = (\<bar>x\<bar> \<le> 1 \<and> \<bar>y\<bar> \<le> 1 \<and> (z \<le> - d / 2 \<or> z \<ge> d / 2))
       \<and> check_collision pf (x, y, z) (PyStr ''two_spheres'') params
           = (sqrt ((x - d / 2)\<^sup>2 + y\<^sup>2 + z\<^sup>2) \<le> R \<or> sqrt ((x + d / 2)\<^sup>2 + y\<^sup>2 + z\<^sup>2) \<le> R)
       \<and> (R = 1 \<longrightarrow> check_collision pf (0, 0, 0) (PyStr ''charged_cylinder'') params
                    \<and> \<not> check_collision pf (0, 0, 1.5) (PyStr ''charged_cylinder'') params)"
  using assms param_or_default_num [of params "''radius''" R pf]
    param_or_default_num [of params "''distance''" d pf]
  by (simp add: Let_def)

theorem check_collision_table_witness:
  "[''radius'' \<mapsto> PyNum 1, ''distance'' \<mapsto> PyNum 2] ''radius'' = Some (PyNum 1) \<and> (1::real) \<noteq> 0
   \<and> [''radius'' \<mapsto> PyNum 1, ''distance'' \<mapsto> PyNum 2] ''distance'' = Some (PyNum 2) \<and> (2::real) \<noteq> 0
   \<and> check_collision (\<lambda>s. None) (0, 0, 0) (PyStr ''charged_cylinder'')
        [''radius'' \<mapsto> PyNum 1, ''distance'' \<mapsto> PyNum 2]
   \<and> \<not> check_collision (\<lambda>s. None) (0, 0, 1.5) (PyStr ''charged_cylinder'')
        [''radius'' \<mapsto> PyNum 1, ''distance'' \<mapsto> PyNum 2]
   \<and> check_collision (\<lambda>s. None) (0, 0, 3) (PyStr ''parallel_plates'')
        [''radius'' \<mapsto> PyNum 1, ''distance'' \<mapsto> PyNum 2]"
  using check_collision_table [of "[''radius'' \<mapsto> PyNum 1, ''distance'' \<mapsto> PyNum 2]" 1 2 "\<lambda>s. None" 0 0 3]
  by simp

text \<open>
  Claim C4 as stated fails for the radius 0: the predicate tests against the radius 1,
  and the point \<open>(1/2, 0, 0)\<close> collides with a sphere of radius 0.
\<close>

theorem check_collision_zero_radius_counterexample:
  "check_collision (\<lambda>s. None) (1 / 2, 0, 0) (PyStr ''charged_sphere'')
     [''radius'' \<mapsto> PyNum 0, ''distance'' \<mapsto> PyNum 1]
   \<and> \<not> (sqrt ((1 / 2)\<^sup>2 + 0\<^sup>2 + 0\<^sup>2) \<le> (0::real))"
  by (simp add: param_or_default_def py_or_def dict_get_def Let_def)

lemma param_or_default_bad:
  assumes "params key = None
        \<or> (\<exists>v. params key = Some v \<and> (\<not> truthy v \<or> (\<exists>e. py_float pf v = Inl e)))"
  shows "param_or_default pf params key = 1"
  using assms
  by (auto simp: param_or_default_def py_or_def dict_get_def split: sum.splits option.splits)

lemma param_or_default_upd_same: "param_or_default pf (params(key \<mapsto> PyNum 1)) key = 1"
  by (simp add: param_or_default_def py_or_def dict_get_def)

lemma param_or_default_upd_other:
  "k \<noteq> key \<Longrightarrow> param_or_default pf (params(key \<mapsto> v)) k = param_or_default pf params k"
  by (simp add: param_or_default_def py_or_def dict_get_def)

text \<open>
  Claim C10. A radius or distance entry that is absent, falsy (\<open>None\<close>, \<open>0\<close>, \<open>0.0\<close>,
  the empty string) or not convertible to a float is replaced by 1.0 before the
  geometric test: the predicate answers as it does for the entry 1. In particular the
  radius 0 is treated as the radius 1.
\<close>

theorem collision_parameter_default:
  assumes "key = ''radius'' \<or> key = ''distance''"
    and "params key = None
        \<or> (\<exists>v. params key = Some v \<and> (\<not> truthy v \<or> (\<exists>e. py_float pf v = Inl e)))"
  shows "param_or_default pf params key = 1
       \<and> check_collision pf pos geometry params
           = check_collision pf pos geometry (params(key \<mapsto> PyNum 1))"
proof -
  have one: "param_or_default pf params key = 1"
    using assms(2) by (rule param_or_default_bad)
  obtain x y z where pos: "pos = (x, y, z)" by (cases pos)
  have "check_collision pf (x, y, z) geometry params
           = check_collision pf (x, y, z) geometry (params(key \<mapsto> PyNum 1))"
    using assms(1)
  proof
    assume k: "key = ''radius''"
    then show ?thesis
      using one by (simp add: param_or_default_upd_same param_or_default_upd_other)
  next
    assume k: "key = ''distance''"
    then show ?thesis
      using one by (simp add: param_or_default_upd_same param_or_default_upd_other)
  qed
  then show ?thesis using one pos by simp
qed

theorem collision_parameter_default_witness:
  "[''radius'' \<mapsto> PyNum 0] ''radius'' = Some (PyNum 0) \<and> \<not> truthy (PyNum 0)
   \<and> param_or_default (\<lambda>s. None) [''radius'' \<mapsto> PyNum 0] ''radius'' = 1
   \<and> check_collision (\<lambda>s. None) (1 / 2, 0, 0) (PyStr ''charged_sphere'') [''radius'' \<mapsto> PyNum 0]
   \<and> [''radius'' \<mapsto> PyNum 0] ''distance'' = None
   \<and> param_or_default (\<lambda>s. None) [''radius'' \<mapsto> PyNum 0] ''distance'' = 1
   \<and> py_float (\<lambda>s. None) (PyStr ''abc'') = Inl ValueError
   \<and> param_or_default (\<lambda>s. None) [''radius'' \<mapsto> PyStr ''abc''] ''radius'' = 1
   \<and> \<not> truthy PyNone
   \<and> param_or_default (\<lambda>s. None) [''distance'' \<mapsto> PyNone] ''distance'' = 1
   \<and> \<not> truthy (PyStr '''')
   \<and> param_or_default (\<lambda>s. None) [''distance'' \<mapsto> PyStr ''''] ''distance'' = 1"
  using collision_parameter_default [of "''radius''" "[''radius'' \<mapsto> PyNum 0]" "\<lambda>s. None"
      "(1 / 2, 0, 0)" "PyStr ''charged_sphere''"]
    collision_parameter_default [of "''distance''" "[''radius'' \<mapsto> PyNum 0]" "\<lambda>s. None"
      "(1 / 2, 0, 0)" "PyStr ''charged_sphere''"]
    collision_parameter_default [of "''radius''" "[''radius'' \<mapsto> PyStr ''abc'']" "\<lambda>s. None"
      "(1 / 2, 0, 0)" "PyStr ''charged_sphere''"]
    collision_parameter_default [of "''distance''" "[''distance'' \<mapsto> PyNone]" "\<lambda>s. None"
      "(1 / 2, 0, 0)" "PyStr ''charged_sphere''"]
    collision_parameter_default [of "''distance''" "[''distance'' \<mapsto> PyStr '''']" "\<lambda>s. None"
      "(1 / 2, 0, 0)" "PyStr ''charged_sphere''"]
  by (simp add: param_or_default_upd_same Let_def)

section \<open>The background grid\<close>

lemma arange_spacing:
  "Suc i < length (arange a b s) \<Longrightarrow> arange a b s ! Suc i - arange a b s ! i = s"
  by (simp add: arange_def algebra_simps)

text \<open>
  Claim C5, as amended. For every resolution \<open>N \<ge> 1\<close> the background grid of a module's
  \<open>simulate\<close> has the spacing \<open>max(0.8 * 20 / N, 0.2)\<close> along every axis for the sphere,
  ring, cylinder, plate and parallel plates, and \<open>max(0.8 * 20 / N, 0.25)\<close> for the two
  spheres.
\<close>

theorem grid_step_per_geometry:
  assumes "1 \<le> N"
    and "g \<in> {''charged_sphere'', ''charged_ring'', ''charged_cylinder'', ''charged_plate'',
               ''parallel_plates'', ''two_spheres''}"
  shows "simulate_grid_step g N =
           Inr (max (0.8 * 20 / real_of_int N) (if g = ''two_spheres'' then 0.25 else 0.2))
       \<and> (\<exists>xs. simulate_axis g N = Inr xs
             \<and> (\<forall>i. Suc i < length xs \<longrightarrow>
                   xs ! Suc i - xs ! i
                     = max (0.8 * 20 / real_of_int N) (if g = ''two_spheres'' then 0.25 else 0.2)))"
proof -
  have N: "N \<noteq> 0" using assms(1) by simp
  have step: "simulate_grid_step g N =
           Inr (max (0.8 * 20 / real_of_int N) (if g = ''two_spheres'' then 0.25 else 0.2))"
    using assms(2) N
    by (auto simp: simulate_grid_step_def grid_step_with_floor_def
        grid_step_charged_sphere_def grid_step_charged_ring_def grid_step_charged_cylinder_def
        grid_step_charged_plate_def grid_step_parallel_plates_def grid_step_two_spheres_def)
  show ?thesis
    unfolding simulate_axis_def step
    by (simp add: bindE_def Let_def arange_spacing)
qed

theorem grid_step_per_geometry_witness:
  "(1::int) \<le> 80
   \<and> ''two_spheres'' \<in> {''charged_sphere'', ''charged_ring'', ''charged_cylinder'',
         ''charged_plate'', ''parallel_plates'', ''two_spheres''}
   \<and> simulate_grid_step ''two_spheres'' 80 = Inr 0.25
   \<and> ''charged_ring'' \<in> {''charged_sphere'', ''charged_ring'', ''charged_cylinder'',
         ''charged_plate'', ''parallel_plates'', ''two_spheres''}
   \<and> simulate_grid_step ''charged_ring'' 80 = Inr 0.2
   \<and> simulate_grid_step ''charged_ring'' 20 = Inr 0.8"
  using grid_step_per_geometry [of 80 "''two_spheres''"]
    grid_step_per_geometry [of 80 "''charged_ring''"]
    grid_step_per_geometry [of 20 "''charged_ring''"]
  by simp

text \<open>
  Claim C5 as stated fails for the two spheres at \<open>N = 80\<close>: the step is 0.25, not
  \<open>max(0.8 * 20 / 80, 0.2) = 0.2\<close>.
\<close>

theorem grid_step_two_spheres_counterexample:
  "simulate_grid_step ''two_spheres'' 80 = Inr 0.25
   \<and> (0.25 :: real) \<noteq> max (0.8 * 20 / real_of_int 80) 0.2"
  by (simp add: simulate_grid_step_def grid_step_two_spheres_def grid_step_with_floor_def)

section \<open>The start request\<close>

text \<open>
  Claim C7. A start request that finds no store, or a store whose \<open>simulated\<close> flag is
  absent or false, changes nothing: every output is \<open>no_update\<close>. With the flag set
  the request writes an active state built from the supplied mass, charge, position,
  velocity and geometry parameters, and enables the timer.
\<close>

theorem start_request_precondition:
  "((estado = None \<or> (\<exists>d. estado = Some d \<and> (d ''simulated'' = None \<or> d ''simulated'' = Some (PyBool False))))
      \<longrightarrow> manejar_particula pf ''start-button'' ui estado = Inr (NoUpdate, NoUpdate, NoUpdate)
          \<and> store_after NoUpdate estado = estado)
   \<and> ((\<exists>d. estado = Some d \<and> d ''simulated'' = Some (PyBool True))
      \<longrightarrow> (\<exists>d1. manejar_particula pf ''start-button'' ui estado = Inr (Update d1, Update False, NoUpdate)
             \<and> d1 ''simulated'' = Some (PyBool True)
             \<and> d1 ''activo'' = Some (PyBool True)
             \<and> d1 ''pos'' = Some (PyList [in_x0 ui, in_y0 ui, in_z0 ui])
             \<and> d1 ''vel'' = Some (PyList [in_vx0 ui, in_vy0 ui, in_vz0 ui])
             \<and> d1 ''m'' = Some (in_m ui)
             \<and> d1 ''q'' = Some (in_q ui)
             \<and> d1 ''geometry'' = Some (geometry_key ui)
             \<and> d1 ''sigma'' = Some (in_sigma ui)
             \<and> d1 ''radius'' = Some (in_radius ui)
             \<and> d1 ''distance'' = Some (in_distance ui)
             \<and> d1 ''invert'' = Some (in_invert ui)))"
proof (intro conjI impI)
  assume "estado = None \<or> (\<exists>d. estado = Some d \<and> (d ''simulated'' = None \<or> d ''simulated'' = Some (PyBool False)))"
  then have "estado_falsy estado \<or> \<not> truthy (estado_get estado ''simulated'')"
    by (auto simp: estado_falsy_def estado_get_def dict_get_def)
  then show "manejar_particula pf ''start-button'' ui estado = Inr (NoUpdate, NoUpdate, NoUpdate)"
    by (simp add: manejar_particula_def)
next
  show "store_after NoUpdate estado = estado" by (simp add: store_after_def)
next
  assume "\<exists>d. estado = Some d \<and> d ''simulated'' = Some (PyBool True)"
  then obtain d where d: "estado = Some d" "d ''simulated'' = Some (PyBool True)" by blast
  then have "d \<noteq> Map.empty" by auto
  then have "\<not> (estado_falsy estado \<or> \<not> truthy (estado_get estado ''simulated''))"
    using d by (simp add: estado_falsy_def estado_get_def dict_get_def)
  then show "\<exists>d1. manejar_particula pf ''start-button'' ui estado = Inr (Update d1, Update False, NoUpdate)
             \<and> d1 ''simulated'' = Some (PyBool True)
             \<and> d1 ''activo'' = Some (PyBool True)
             \<and> d1 ''pos'' = Some (PyList [in_x0 ui, in_y0 ui, in_z0 ui])
             \<and> d1 ''vel'' = Some (PyList [in_vx0 ui, in_vy0 ui, in_vz0 ui])
             \<and> d1 ''m'' = Some (in_m ui)
             \<and> d1 ''q'' = Some (in_q ui)
             \<and> d1 ''geometry'' = Some (geometry_key ui)
             \<and> d1 ''sigma'' = Some (in_sigma ui)
             \<and> d1 ''radius'' = Some (in_radius ui)
             \<and> d1 ''distance'' = Some (in_distance ui)
             \<and> d1 ''invert'' = Some (in_invert ui)"
    by (simp add: manejar_particula_def)
qed

theorem start_request_precondition_witness:
  "manejar_particula (\<lambda>s. None) ''start-button'' ui_default
      (Some [''simulated'' \<mapsto> PyBool False, ''activo'' \<mapsto> PyBool False])
     = Inr (NoUpdate, NoUpdate, NoUpdate)
   \<and> (\<exists>d1. manejar_particula (\<lambda>s. None) ''start-button'' ui_default
              (Some [''simulated'' \<mapsto> PyBool True, ''activo'' \<mapsto> PyBool False])
            = Inr (Update d1, Update False, NoUpdate)
          \<and> d1 ''activo'' = Some (PyBool True)
          \<and> d1 ''m'' = Some (PyNum (1 / 10 ^ 3))
          \<and> d1 ''pos'' = Some (PyList [SNum 0, SNum 0, SNum 0])
          \<and> d1 ''geometry'' = Some (PyStr ''charged_plate''))"
  using start_request_precondition [of "Some [''simulated'' \<mapsto> PyBool False, ''activo'' \<mapsto> PyBool False]"
      "\<lambda>s. None" ui_default]
    start_request_precondition [of "Some [''simulated'' \<mapsto> PyBool True, ''activo'' \<mapsto> PyBool False]"
      "\<lambda>s. None" ui_default]
  by (simp add: ui_default_def) blast

section \<open>One tick of the particle\<close>

lemma guard_passes:
  assumes "d ''activo'' = Some a" "truthy a" "d ''pos'' = Some (PyList (x # xs))"
  shows "\<not> (estado_falsy (Some d) \<or> \<not> truthy (estado_get (Some d) ''activo'')
            \<or> \<not> truthy (estado_get (Some d) ''pos''))"
proof -
  have "d \<noteq> Map.empty" using assms(1) by auto
  then show ?thesis
    using assms by (simp add: estado_falsy_def estado_get_def dict_get_def)
qed

lemma np_array_float_nums:
  "np_array_float pf (PyList [SNum x, SNum y, SNum z]) = Inr (Point3 (x, y, z))"
  by (simp add: bad_string_def bindE_def)

lemma tick_success:
  assumes "d ''activo'' = Some a" and "truthy a"
    and "d ''pos'' = Some (PyList [SNum px, SNum py, SNum pz])"
    and "d ''vel'' = Some (PyList [SNum vx, SNum vy, SNum vz])"
    and "d ''m'' = Some mv" and "d ''q'' = Some qv" and "py_truediv qv mv = Inr q_over_m"
    and "d ''geometry'' = Some g"
    and "call_E_point d (Point3 (px, py, pz)) = Inr E"
  shows "manejar_particula pf ''animation-interval'' ui (Some d) =
           Inr (Update
                 ((if check_collision pf
                        (vadd (px, py, pz) (smul dt (vadd (vx, vy, vz) (smul dt (smul q_over_m E)))))
                        g d
                   then d(''activo'' \<mapsto> PyBool False) else d)
                  (''pos'' \<mapsto> tolist (vadd (px, py, pz)
                                   (smul dt (vadd (vx, vy, vz) (smul dt (smul q_over_m E))))),
                   ''vel'' \<mapsto> tolist (vadd (vx, vy, vz) (smul dt (smul q_over_m E))))),
                NoUpdate, NoUpdate)"
proof -
  have body: "tick_try_body pf d (Point3 (px, py, pz)) (Point3 (vx, vy, vz)) mv qv =
      Inr ((if check_collision pf
                        (vadd (px, py, pz) (smul dt (vadd (vx, vy, vz) (smul dt (smul q_over_m E)))))
                        g d
                   then d(''activo'' \<mapsto> PyBool False) else d)
                  (''pos'' \<mapsto> tolist (vadd (px, py, pz)
                                   (smul dt (vadd (vx, vy, vz) (smul dt (smul q_over_m E))))),
                   ''vel'' \<mapsto> tolist (vadd (vx, vy, vz) (smul dt (smul q_over_m E)))))"
    using assms(7,8,9)
    by (simp add: tick_try_body_def bindE_def dict_item_def Let_def del: vadd.simps smul.simps tolist.simps check_collision.simps)
  show ?thesis
    using guard_passes [OF assms(1,2,3)] assms(3,4,5,6) body
    by (simp add: manejar_particula_def bindE_def dict_item_def np_array_float_nums Let_def
        del: np_array_float.simps vadd.simps smul.simps tolist.simps check_collision.simps)
qed

lemma E_sphere_axis:
  "E_point_charged_sphere (2, 0, 0) (4 * eps) 1 eps = (if eps = 0 then Inl NotFinite else Inr (1, 0, 0))"
  by (simp add: E_point_charged_sphere_def compute_field_sphere_def field_sphere_at_def
      first_row_def bindE_def Let_def)

lemma call_E_point_estado_sphere:
  "call_E_point (estado_sphere vx m) (Point3 (2, 0, 0)) = Inr (1, 0, 0)"
  using E_sphere_axis [of "8.854 / 10 ^ 12"]
  by (simp add: call_E_point_def estado_sphere_def dict_item_def dict_get_def bindE_def)

lemma estado_sphere_lookup:
  "estado_sphere vx m ''activo'' = Some (PyBool True)"
  "estado_sphere vx m ''pos'' = Some (PyList [SNum 2, SNum 0, SNum 0])"
  "estado_sphere vx m ''vel'' = Some (PyList [SNum vx, SNum 0, SNum 0])"
  "estado_sphere vx m ''m'' = Some m"
  "estado_sphere vx m ''q'' = Some (PyNum 1)"
  "estado_sphere vx m ''geometry'' = Some (PyStr ''charged_sphere'')"
  "estado_sphere vx m ''sigma'' = Some (PyNum (4 * (8.854 / 10 ^ 12)))"
  "estado_sphere vx m ''radius'' = Some (PyNum 1)"
  "estado_sphere vx m ''distance'' = Some (PyNum 1)"
  "estado_sphere vx m ''invert'' = Some (PyList [SStr ''invert''])"
  by (simp_all add: estado_sphere_def)

lemma estado_sphere_collision:
  "check_collision pf (x, 0, 0) (PyStr ''charged_sphere'') (estado_sphere vx m) = (\<bar>x\<bar> \<le> 1)"
  by (simp add: param_or_default_def py_or_def dict_get_def estado_sphere_lookup)

text \<open>
  The step of a tick on a well-formed active state: the field at the position \<open>p\<close>
  comes from the point function of the stored geometry, called with the parameters of
  the state and with no \<open>epsilon_0\<close> argument, so that the default of its signature
  applies; then \<open>a = (q/m) E\<close>, \<open>v' = v + a dt\<close>, \<open>p' = p + v' dt\<close> with \<open>dt = 0.05\<close>, and
  the collision predicate is applied to \<open>p'\<close>.
\<close>

lemma tick_step_default_epsilon:
  assumes "d ''activo'' = Some a" and "truthy a"
    and "d ''pos'' = Some (PyList [SNum px, SNum py, SNum pz])"
    and "d ''vel'' = Some (PyList [SNum vx, SNum vy, SNum vz])"
    and "d ''m'' = Some (PyNum m)" and "m \<noteq> 0" and "d ''q'' = Some (PyNum q)"
    and "d ''geometry'' = Some (PyStr g)"
    and "d ''sigma'' = Some (PyNum sigma)" and "d ''radius'' = Some (PyNum radius)"
    and "d ''distance'' = Some (PyNum distance)" and "d ''invert'' = Some (PyList invert)"
    and "(if g = ''charged_sphere'' then
            E_point_charged_sphere (px, py, pz) sigma radius (8.854 / 10 ^ 12)
          else if g = ''charged_ring'' then
            E_point_charged_ring (px, py, pz) sigma radius (8.854 / 10 ^ 12) 20
          else if g = ''charged_cylinder'' then
            E_point_charged_cylinder (px, py, pz) sigma radius 2 20 EPSILON_0
          else if g = ''charged_plate'' then
            E_point_charged_plate (px, py, pz) sigma 1 1 (8.854 / 10 ^ 12) 20
          else if g = ''parallel_plates'' then
            E_point_parallel_plates (px, py, pz) sigma distance (SStr ''invert'' \<in> set invert) EPSILON_0
          else if g = ''two_spheres'' then
            E_point_two_spheres (px, py, pz) sigma distance (SStr ''invert'' \<in> set invert) EPSILON_0
          else Inl ModuleNotFoundError) = Inr E"
  shows "manejar_particula pf ''animation-interval'' ui (Some d) =
           (let acc = smul (q / m) E;
                v1 = vadd (vx, vy, vz) (smul 0.05 acc);
                p1 = vadd (px, py, pz) (smul 0.05 v1)
            in Inr (Update ((if check_collision pf p1 (PyStr g) d
                             then d(''activo'' \<mapsto> PyBool False) else d)
                            (''pos'' \<mapsto> tolist p1, ''vel'' \<mapsto> tolist v1)),
                    NoUpdate, NoUpdate))"
proof -
  have E: "call_E_point d (Point3 (px, py, pz)) = Inr E"
    using assms(8-13)
    by (simp add: call_E_point_def dict_item_def dict_get_def bindE_def invert_flag_def
        split: if_splits)
  have qm: "py_truediv (PyNum q) (PyNum m) = Inr (q / m)"
    using assms(6) by (simp add: py_truediv_def bindE_def)
  show ?thesis
    using tick_success [OF assms(1,2,3,4,5,7) qm assms(8) E, of pf ui]
    by (simp add: Let_def dt_def del: vadd.simps smul.simps tolist.simps check_collision.simps)
qed

text \<open>
  Claim C2. The tick shall evaluate the field with the \<open>epsilon_0\<close> of the
  configuration. It does not: at the state \<open>estado_sphere 0 1\<close> (sphere of radius 1,
  particle at rest at \<open>(2, 0, 0)\<close>, mass 1, charge 1) the stored velocity is
  \<open>(0.05, 0, 0)\<close>, which is the step for \<open>epsilon_0 = 8.854e-12\<close>, the default of the
  sphere's point function. With \<open>EPSILON_0\<close> of config.py the field at the particle is
  \<open>(8.854 / 8.854187817, 0, 0)\<close>, with the value \<open>8.8e-12\<close> that the permittivity input
  starts with it is \<open>(8.854 / 8.8, 0, 0)\<close>, and in both cases the velocity of the claimed
  step differs from the stored one.
\<close>

theorem tick_epsilon_failing_input:
  "manejar_particula (\<lambda>s. None) ''animation-interval'' ui_default (Some (estado_sphere 0 (PyNum 1)))
     = Inr (Update ((estado_sphere 0 (PyNum 1))
                     (''pos'' \<mapsto> PyList [SNum 2.0025, SNum 0, SNum 0],
                      ''vel'' \<mapsto> PyList [SNum 0.05, SNum 0, SNum 0])),
            NoUpdate, NoUpdate)
   \<and> E_point_charged_sphere (2, 0, 0) (4 * (8.854 / 10 ^ 12)) 1 EPSILON_0
       = Inr (8.854 / 8.854187817, 0, 0)
   \<and> tolist (vadd (0, 0, 0) (smul 0.05 (smul (1 / 1) (8.854 / 8.854187817, 0, 0))))
       \<noteq> PyList [SNum 0.05, SNum 0, SNum 0]
   \<and> E_point_charged_sphere (2, 0, 0) (4 * (8.854 / 10 ^ 12)) 1 (8.8 / 10 ^ 12)
       = Inr (8.854 / 8.8, 0, 0)
   \<and> tolist (vadd (0, 0, 0) (smul 0.05 (smul (1 / 1) (8.854 / 8.8, 0, 0))))
       \<noteq> PyList [SNum 0.05, SNum 0, SNum 0]"
proof (intro conjI)
  have qm: "py_truediv (PyNum 1) (PyNum 1) = Inr 1"
    by (simp add: py_truediv_def bindE_def)
  show "manejar_particula (\<lambda>s. None) ''animation-interval'' ui_default (Some (estado_sphere 0 (PyNum 1)))
     = Inr (Update ((estado_sphere 0 (PyNum 1))
                     (''pos'' \<mapsto> PyList [SNum 2.0025, SNum 0, SNum 0],
                      ''vel'' \<mapsto> PyList [SNum 0.05, SNum 0, SNum 0])),
            NoUpdate, NoUpdate)"
    using tick_success [where d = "estado_sphere 0 (PyNum 1)" and a = "PyBool True"
        and px = 2 and py = 0 and pz = 0 and vx = 0 and vy = 0 and vz = 0
        and mv = "PyNum 1" and qv = "PyNum 1" and q_over_m = 1
        and g = "PyStr ''charged_sphere''" and E = "(1, 0, 0)"
        and pf = "\<lambda>s. None" and ui = ui_default]
      qm call_E_point_estado_sphere [of 0 "PyNum 1"]
    by (simp add: estado_sphere_lookup estado_sphere_collision dt_def del: check_collision.simps)
  show "E_point_charged_sphere (2, 0, 0) (4 * (8.854 / 10 ^ 12)) 1 EPSILON_0
       = Inr (8.854 / 8.854187817, 0, 0)"
    by (simp add: E_point_charged_sphere_def compute_field_sphere_def field_sphere_at_def
        first_row_def bindE_def Let_def EPSILON_0_def)
  show "tolist (vadd (0, 0, 0) (smul 0.05 (smul (1 / 1) (8.854 / 8.854187817, 0, 0))))
       \<noteq> PyList [SNum 0.05, SNum 0, SNum 0]"
    by simp
  show "E_point_charged_sphere (2, 0, 0) (4 * (8.854 / 10 ^ 12)) 1 (8.8 / 10 ^ 12)
       = Inr (8.854 / 8.8, 0, 0)"
    by (simp add: E_point_charged_sphere_def compute_field_sphere_def field_sphere_at_def
        first_row_def bindE_def Let_def)
  show "tolist (vadd (0, 0, 0) (smul 0.05 (smul (1 / 1) (8.854 / 8.8, 0, 0))))
       \<noteq> PyList [SNum 0.05, SNum 0, SNum 0]"
    by simp
qed

theorem tick_epsilon_failing_input_witness:
  "\<not> (estado_falsy (Some (estado_sphere 0 (PyNum 1)))
        \<or> \<not> truthy (estado_get (Some (estado_sphere 0 (PyNum 1))) ''activo'')
        \<or> \<not> truthy (estado_get (Some (estado_sphere 0 (PyNum 1))) ''pos''))
   \<and> manejar_particula (\<lambda>s. None) ''animation-interval'' ui_default (Some (estado_sphere 0 (PyNum 1)))
       = Inr (Update ((estado_sphere 0 (PyNum 1))
                       (''pos'' \<mapsto> PyList [SNum 2.0025, SNum 0, SNum 0],
                        ''vel'' \<mapsto> PyList [SNum 0.05, SNum 0, SNum 0])),
              NoUpdate, NoUpdate)
   \<and> E_point_charged_sphere (2, 0, 0) (4 * (8.854 / 10 ^ 12)) 1 (8.8 / 10 ^ 12)
       = Inr (8.854 / 8.8, 0, 0)"
  using tick_epsilon_failing_input
    guard_passes [where d = "estado_sphere 0 (PyNum 1)" and a = "PyBool True"
      and x = "SNum 2" and xs = "[SNum 0, SNum 0]"]
  by (simp add: estado_sphere_lookup)

text \<open>
  Claim C9. When the collision predicate fires on the position after the step, the
  returned state holds the updated position and velocity: the stored position is the
  colliding point itself, only the activity flag is cleared, and nothing is rolled
  back.
\<close>

theorem collision_commits_step:
  assumes "d ''activo'' = Some a" and "truthy a"
    and "d ''pos'' = Some (PyList [SNum px, SNum py, SNum pz])"
    and "d ''vel'' = Some (PyList [SNum vx, SNum vy, SNum vz])"
    and "d ''m'' = Some mv" and "d ''q'' = Some qv" and "py_truediv qv mv = Inr q_over_m"
    and "d ''geometry'' = Some g"
    and "call_E_point d (Point3 (px, py, pz)) = Inr E"
    and "vnew = vadd (vx, vy, vz) (smul 0.05 (smul q_over_m E))"
    and "pnew = vadd (px, py, pz) (smul 0.05 vnew)"
    and "check_collision pf pnew g d"
  shows "manejar_particula pf ''animation-interval'' ui (Some d) =
           Inr (Update (d(''activo'' \<mapsto> PyBool False, ''pos'' \<mapsto> tolist pnew, ''vel'' \<mapsto> tolist vnew)),
                NoUpdate, NoUpdate)"
  using tick_success [OF assms(1-9), of pf ui] assms(10-12)
  by (simp add: dt_def del: vadd.simps smul.simps tolist.simps check_collision.simps)

theorem collision_commits_step_witness:
  "manejar_particula (\<lambda>s. None) ''animation-interval'' ui_default (Some (estado_sphere (- 40) (PyNum 1)))
     = Inr (Update ((estado_sphere (- 40) (PyNum 1))
                     (''activo'' \<mapsto> PyBool False,
                      ''pos'' \<mapsto> PyList [SNum 0.0025, SNum 0, SNum 0],
                      ''vel'' \<mapsto> PyList [SNum (- 39.95), SNum 0, SNum 0])),
            NoUpdate, NoUpdate)
   \<and> check_collision (\<lambda>s. None) (0.0025, 0, 0) (PyStr ''charged_sphere'') (estado_sphere (- 40) (PyNum 1))"
  using collision_commits_step [where d = "estado_sphere (- 40) (PyNum 1)" and a = "PyBool True"
      and px = 2 and py = 0 and pz = 0 and vx = "- 40" and vy = 0 and vz = 0
      and mv = "PyNum 1" and qv = "PyNum 1" and q_over_m = 1
      and g = "PyStr ''charged_sphere''" and E = "(1, 0, 0)"
      and vnew = "(- 39.95, 0, 0)" and pnew = "(0.0025, 0, 0)"
      and pf = "\<lambda>s. None" and ui = ui_default]
    call_E_point_estado_sphere [of "- 40" "PyNum 1"]
  by (simp add: estado_sphere_lookup estado_sphere_collision py_truediv_def bindE_def
      del: check_collision.simps)







end
